theory Spec2Isabelle
  imports Main
begin

section \<open>OpenStack infrastructure: Terraformer values and status reconstruction\<close>

text \<open>
  A shallow embedding of package \<open>infrastructure\<close> (the file that defines
  \<open>ComputeTerraformerTemplateValues\<close>, \<open>findFloatingSubnet\<close>, \<open>ExtractTerraformState\<close>,
  \<open>StatusFromTerraformState\<close> and \<open>ComputeStatus\<close>), followed by the value resolution of the
  control-plane values provider, of which only the test-suite is at hand.

  Go pointers are \<open>option\<close>s, a Go \<open>(x, error)\<close> result is a sum with the error on the
  left, a Go \<open>map[string]T\<close> is a partial function from strings.
\<close>

subsection \<open>Constants\<close>

definition TerraformOutputKeySSHKeyName :: string where
  "TerraformOutputKeySSHKeyName = ''key_name''"

definition TerraformOutputKeyRouterID :: string where
  "TerraformOutputKeyRouterID = ''router_id''"

definition TerraformOutputKeyRouterIP :: string where
  "TerraformOutputKeyRouterIP = ''router_ip''"

definition TerraformOutputKeyNetworkID :: string where
  "TerraformOutputKeyNetworkID = ''network_id''"

definition TerraformOutputKeyNetworkName :: string where
  "TerraformOutputKeyNetworkName = ''network_name''"

definition TerraformOutputKeySecurityGroupID :: string where
  "TerraformOutputKeySecurityGroupID = ''security_group_id''"

definition TerraformOutputKeySecurityGroupName :: string where
  "TerraformOutputKeySecurityGroupName = ''security_group_name''"

definition TerraformOutputKeyFloatingNetworkID :: string where
  "TerraformOutputKeyFloatingNetworkID = ''floating_network_id''"

definition TerraformOutputKeySubnetID :: string where
  "TerraformOutputKeySubnetID = ''subnet_id''"

definition TerraformOutputKeyShareNetworkID :: string where
  "TerraformOutputKeyShareNetworkID = ''share_network_id''"

definition TerraformOutputKeyShareNetworkName :: string where
  "TerraformOutputKeyShareNetworkName = ''share_network_name''"

definition DefaultRouterID :: string where
  "DefaultRouterID = ''openstack_networking_router_v2.router.id''"

definition MaxApiCallRetries :: string where
  "MaxApiCallRetries = ''10''"


lemmas output_key_defs =
  TerraformOutputKeySSHKeyName_def TerraformOutputKeyRouterID_def
  TerraformOutputKeyRouterIP_def TerraformOutputKeyNetworkID_def
  TerraformOutputKeyNetworkName_def TerraformOutputKeySecurityGroupID_def
  TerraformOutputKeySecurityGroupName_def TerraformOutputKeyFloatingNetworkID_def
  TerraformOutputKeySubnetID_def TerraformOutputKeyShareNetworkID_def
  TerraformOutputKeyShareNetworkName_def

subsection \<open>API types (the fields the infrastructure package reads)\<close>

datatype error = Error string

record Router =
  Router_ID :: string

record ShareNetwork =
  ShareNetwork_Enabled :: bool

record Networks =
  Networks_Router :: "Router option"
  Networks_Worker :: string
  Networks_Workers :: string
  Networks_ID :: "string option"
  Networks_ShareNetwork :: "ShareNetwork option"

record InfrastructureConfig =
  FloatingPoolName :: string
  FloatingPoolSubnetName :: "string option"
  Config_Networks :: Networks

record FloatingPool =
  FloatingPool_Name :: string
  FloatingPool_Region :: "string option"
  FloatingPool_Domain :: "string option"
  DefaultFloatingSubnet :: "string option"
  NonConstraining :: "bool option"

record KeyStoneURL =
  KeyStoneURL_Region :: string
  KeyStoneURL_URL :: string
  KeyStoneURL_CACert :: "string option"

record Constraints =
  FloatingPools :: "FloatingPool list"

record CloudProfileConfig =
  Profile_Constraints :: Constraints
  DNSServers :: "string list"
  Profile_KeyStoneURL :: string
  KeyStoneCACert :: "string option"
  KeyStoneForceInsecure :: bool
  KeyStoneURLs :: "KeyStoneURL list"
  UseSNAT :: "bool option"

record Infrastructure =
  Infra_Namespace :: string
  Spec_Region :: string
  Spec_SSHPublicKey :: string

text \<open>
  The functions of package \<open>helper\<close>, \<open>WorkersCIDR\<close> and \<open>strconv.Quote\<close> are called by the
  code below but defined elsewhere. They are parameters of the model: every theorem holds
  for whatever they compute. The cluster object is only ever handed to
  \<open>CloudProfileConfigFromCluster\<close>, so its type is a parameter as well.
\<close>

record 'cluster helper =
  CloudProfileConfigFromCluster :: "'cluster \<Rightarrow> error + CloudProfileConfig"
  FindKeyStoneURL :: "KeyStoneURL list \<Rightarrow> string \<Rightarrow> string \<Rightarrow> error + string"
  FindKeyStoneCACert :: "KeyStoneURL list \<Rightarrow> string option \<Rightarrow> string \<Rightarrow> string option"
  FindFloatingPool ::
    "FloatingPool list \<Rightarrow> string \<Rightarrow> string \<Rightarrow> string option \<Rightarrow> error + FloatingPool"
  WorkersCIDR :: "InfrastructureConfig \<Rightarrow> string"
  strconv_Quote :: "string \<Rightarrow> string"

subsection \<open>Template values\<close>

text \<open>The \<open>interface{}\<close> values that occur in the \<open>map[string]interface{}\<close> tree.\<close>

datatype val =
    VString string
  | VBool bool
  | VStrings "string list"
  | VMap "string \<Rightarrow> val option"

type_synonym valuesMap = "string \<Rightarrow> val option"

text \<open>\<open>findFloatingSubnet\<close>, branch by branch.\<close>

definition findFloatingSubnet ::
  "'c helper \<Rightarrow> bool \<Rightarrow> InfrastructureConfig \<Rightarrow> CloudProfileConfig \<Rightarrow> string \<Rightarrow> string option"
where
  "findFloatingSubnet h isRouterRequired config cloudProfileConfig region =
     (if \<not> isRouterRequired then None
      else if FloatingPoolSubnetName config \<noteq> None then FloatingPoolSubnetName config
      else (case FindFloatingPool h (FloatingPools (Profile_Constraints cloudProfileConfig))
                   (FloatingPoolName config) region None of
              Inl err \<Rightarrow> None
            | Inr floatingPool \<Rightarrow>
                (if DefaultFloatingSubnet floatingPool \<noteq> None
                 then DefaultFloatingSubnet floatingPool else None)))"

text \<open>
  The local variables of \<open>ComputeTerraformerTemplateValues\<close>, each with the assignments the
  function makes to it, in the order of the source.
\<close>

definition createRouter :: "InfrastructureConfig \<Rightarrow> bool" where
  "createRouter config = (if Networks_Router (Config_Networks config) \<noteq> None then False else True)"

definition createNetwork :: "InfrastructureConfig \<Rightarrow> bool" where
  "createNetwork config = (if Networks_ID (Config_Networks config) \<noteq> None then False else True)"

definition createShareNetwork :: "InfrastructureConfig \<Rightarrow> bool" where
  "createShareNetwork config =
     (case Networks_ShareNetwork (Config_Networks config) of
        None \<Rightarrow> False
      | Some sn \<Rightarrow> ShareNetwork_Enabled sn)"

definition routerConfig ::
  "'c helper \<Rightarrow> Infrastructure \<Rightarrow> InfrastructureConfig \<Rightarrow> CloudProfileConfig \<Rightarrow> valuesMap"
where
  "routerConfig h infra config cloudProfileConfig =
     (let rc0 = (case Networks_Router (Config_Networks config) of
                   None \<Rightarrow> [''id'' \<mapsto> VString DefaultRouterID]
                 | Some r \<Rightarrow> [''id'' \<mapsto> VString (strconv_Quote h (Router_ID r))]);
          rc1 = (case findFloatingSubnet h (createRouter config) config cloudProfileConfig
                        (Spec_Region infra) of
                   None \<Rightarrow> rc0
                 | Some floatingPoolSubnet \<Rightarrow>
                     rc0(''floatingPoolSubnet'' \<mapsto> VString floatingPoolSubnet))
      in (case UseSNAT cloudProfileConfig of
            None \<Rightarrow> rc1
          | Some snat \<Rightarrow> rc1(''enableSNAT'' \<mapsto> VBool snat)))"

definition networksConfig :: "'c helper \<Rightarrow> InfrastructureConfig \<Rightarrow> valuesMap" where
  "networksConfig h config =
     (let nc0 = [''workers'' \<mapsto> VString (WorkersCIDR h config)]
      in (case Networks_ID (Config_Networks config) of
            None \<Rightarrow> nc0
          | Some nid \<Rightarrow> nc0(''id'' \<mapsto> VString nid)))"

definition outputKeysConfig :: "InfrastructureConfig \<Rightarrow> valuesMap" where
  "outputKeysConfig config =
     (let ok0 = [''routerID'' \<mapsto> VString TerraformOutputKeyRouterID,
                 ''routerIP'' \<mapsto> VString TerraformOutputKeyRouterIP,
                 ''networkID'' \<mapsto> VString TerraformOutputKeyNetworkID,
                 ''networkName'' \<mapsto> VString TerraformOutputKeyNetworkName,
                 ''keyName'' \<mapsto> VString TerraformOutputKeySSHKeyName,
                 ''securityGroupID'' \<mapsto> VString TerraformOutputKeySecurityGroupID,
                 ''securityGroupName'' \<mapsto> VString TerraformOutputKeySecurityGroupName,
                 ''floatingNetworkID'' \<mapsto> VString TerraformOutputKeyFloatingNetworkID,
                 ''subnetID'' \<mapsto> VString TerraformOutputKeySubnetID]
      in if createShareNetwork config
         then ok0(''shareNetworkID'' \<mapsto> VString TerraformOutputKeyShareNetworkID,
                  ''shareNetworkName'' \<mapsto> VString TerraformOutputKeyShareNetworkName)
         else ok0)"

definition useCACert :: "string option \<Rightarrow> bool" where
  "useCACert keyStoneCA = (case keyStoneCA of None \<Rightarrow> False | Some ca \<Rightarrow> length ca > 0)"

definition ComputeTerraformerTemplateValues ::
  "'c helper \<Rightarrow> Infrastructure \<Rightarrow> InfrastructureConfig \<Rightarrow> 'c \<Rightarrow> error + valuesMap"
where
  "ComputeTerraformerTemplateValues h infra config cluster =
     (case CloudProfileConfigFromCluster h cluster of
        Inl err \<Rightarrow> Inl err
      | Inr cloudProfileConfig \<Rightarrow>
          (case FindKeyStoneURL h (KeyStoneURLs cloudProfileConfig)
                  (Profile_KeyStoneURL cloudProfileConfig) (Spec_Region infra) of
             Inl err \<Rightarrow> Inl err
           | Inr keyStoneURL \<Rightarrow>
               Inr [''openstack'' \<mapsto> VMap
                      [''maxApiCallRetries'' \<mapsto> VString MaxApiCallRetries,
                       ''authURL'' \<mapsto> VString keyStoneURL,
                       ''region'' \<mapsto> VString (Spec_Region infra),
                       ''insecure'' \<mapsto> VBool (KeyStoneForceInsecure cloudProfileConfig),
                       ''floatingPoolName'' \<mapsto> VString (FloatingPoolName config),
                       ''useCACert'' \<mapsto> VBool (useCACert
                          (FindKeyStoneCACert h (KeyStoneURLs cloudProfileConfig)
                             (KeyStoneCACert cloudProfileConfig) (Spec_Region infra)))],
                    ''create'' \<mapsto> VMap
                      [''router'' \<mapsto> VBool (createRouter config),
                       ''network'' \<mapsto> VBool (createNetwork config),
                       ''shareNetwork'' \<mapsto> VBool (createShareNetwork config)],
                    ''dnsServers'' \<mapsto> VStrings (DNSServers cloudProfileConfig),
                    ''sshPublicKey'' \<mapsto> VString (Spec_SSHPublicKey infra),
                    ''router'' \<mapsto> VMap (routerConfig h infra config cloudProfileConfig),
                    ''clusterName'' \<mapsto> VString (Infra_Namespace infra),
                    ''networks'' \<mapsto> VMap (networksConfig h config),
                    ''outputKeys'' \<mapsto> VMap (outputKeysConfig config)]))"

subsection \<open>Terraform state and infrastructure status\<close>

record TerraformState =
  SSHKeyName :: string
  RouterID :: string
  RouterIP :: string
  NetworkID :: string
  NetworkName :: string
  SubnetID :: string
  FloatingNetworkID :: string
  SecurityGroupID :: string
  SecurityGroupName :: string
  ShareNetworkID :: string
  ShareNetworkName :: string










text \<open>
  The Terraformer is reached through \<open>GetStateOutputVariables\<close> alone: given the requested
  keys it answers with an error or with a map of output variables. It is a parameter of
  \<open>ExtractTerraformState\<close> and \<open>ComputeStatus\<close>.
\<close>

type_synonym outputs = "string \<Rightarrow> string option"

type_synonym terraformer = "string list \<Rightarrow> error + outputs"

text \<open>Indexing a Go \<open>map[string]string\<close>: a key that is absent reads as the empty string.\<close>

definition mapIndex :: "outputs \<Rightarrow> string \<Rightarrow> string" where
  "mapIndex vars k = (case vars k of None \<Rightarrow> [] | Some v \<Rightarrow> v)"

text \<open>The slice \<open>outputKeys\<close> that \<open>ExtractTerraformState\<close> builds before it calls the Terraformer.\<close>

definition outputKeys :: "InfrastructureConfig \<Rightarrow> string list" where
  "outputKeys config =
     (let ks = [TerraformOutputKeySSHKeyName,
                TerraformOutputKeyRouterID,
                TerraformOutputKeyRouterIP,
                TerraformOutputKeyNetworkID,
                TerraformOutputKeyNetworkName,
                TerraformOutputKeySubnetID,
                TerraformOutputKeyFloatingNetworkID,
                TerraformOutputKeySecurityGroupID,
                TerraformOutputKeySecurityGroupName]
      in if (case Networks_ShareNetwork (Config_Networks config) of
               None \<Rightarrow> False
             | Some sn \<Rightarrow> ShareNetwork_Enabled sn)
         then ks @ [TerraformOutputKeyShareNetworkID, TerraformOutputKeyShareNetworkName]
         else ks)"

definition ExtractTerraformState ::
  "terraformer \<Rightarrow> InfrastructureConfig \<Rightarrow> error + TerraformState"
where
  "ExtractTerraformState tf config =
     (case tf (outputKeys config) of
        Inl err \<Rightarrow> Inl err
      | Inr vars \<Rightarrow>
          Inr \<lparr>SSHKeyName = mapIndex vars TerraformOutputKeySSHKeyName,
               RouterID = mapIndex vars TerraformOutputKeyRouterID,
               RouterIP = mapIndex vars TerraformOutputKeyRouterIP,
               NetworkID = mapIndex vars TerraformOutputKeyNetworkID,
               NetworkName = mapIndex vars TerraformOutputKeyNetworkName,
               SubnetID = mapIndex vars TerraformOutputKeySubnetID,
               FloatingNetworkID = mapIndex vars TerraformOutputKeyFloatingNetworkID,
               SecurityGroupID = mapIndex vars TerraformOutputKeySecurityGroupID,
               SecurityGroupName = mapIndex vars TerraformOutputKeySecurityGroupName,
               ShareNetworkID = mapIndex vars TerraformOutputKeyShareNetworkID,
               ShareNetworkName = mapIndex vars TerraformOutputKeyShareNetworkName\<rparr>)"



text \<open>
  Modelled from the spec: the external provisioning tool, "a key/value output store reached
  through a \<open>GetStateOutputVariables(keys) -> map[string]string, error\<close> interface"
  (sections 1 and 6); the Terraformer itself is a library and not among the sources. Given the
  outputs of the applied state it answers with the requested keys and no others, and it
  fails when a requested key has no output (section 4.5: a key required by the enabled
  features that is absent is an error, keys of disabled features are omitted).
\<close>

definition variablesNotFoundError :: "string list \<Rightarrow> error" where
  "variablesNotFoundError variables =
     Error (''could not find all requested variables: '' @ concat variables)"

definition GetStateOutputVariables :: "outputs \<Rightarrow> terraformer" where
  "GetStateOutputVariables stateOutputs variables =
     (if list_all (\<lambda>v. stateOutputs v \<noteq> None) variables
      then Inr (stateOutputs |` set variables)
      else Inl (variablesNotFoundError (filter (\<lambda>v. stateOutputs v = None) variables)))"

text \<open>Reading one entry of a section of the values tree, and of a result that may be an error.\<close>

definition valueAt :: "valuesMap \<Rightarrow> string \<Rightarrow> string \<Rightarrow> val option" where
  "valueAt v sect k =
     (case v sect of
        Some (VMap m) \<Rightarrow> m k
      | Some (VString s) \<Rightarrow> None
      | Some (VBool b) \<Rightarrow> None
      | Some (VStrings ss) \<Rightarrow> None
      | None \<Rightarrow> None)"

definition resultAt :: "error + valuesMap \<Rightarrow> string \<Rightarrow> string \<Rightarrow> val option" where
  "resultAt r sect k = (case r of Inl err \<Rightarrow> None | Inr v \<Rightarrow> valueAt v sect k)"

subsection \<open>Control-plane values: load-balancer classes, credentials, PSP gate\<close>

text \<open>
  The values provider itself (\<open>GetConfigChartValues\<close>, \<open>GetControlPlaneShootChartValues\<close>)
  is not among the sources; its tests are. The records below have the fields the tests
  set, and each definition is written from the specification, as its comment says.
\<close>

record LoadBalancerClass =
  LBC_Name :: string
  LBC_FloatingNetworkID :: "string option"
  LBC_FloatingSubnetID :: "string option"
  LBC_FloatingSubnetName :: "string option"
  LBC_FloatingSubnetTags :: "string option"
  LBC_SubnetID :: "string option"
  LBC_Purpose :: "string option"

text \<open>
  Modelled from the spec: the purpose, and the literal name, that mark the default class
  (section 4.2); the constant of the API package is absent from the sources.
\<close>

definition DefaultLoadBalancerClass :: string where
  "DefaultLoadBalancerClass = ''default''"

text \<open>
  Modelled from the spec: the default selection of \<open>LoadBalancerClassResolver.Resolve\<close>
  (section 4.2), whose code in the values provider is not among the sources. Precedence,
  first match wins: a class whose purpose is \<open>default\<close> (first occurrence); a class
  literally named \<open>default\<close>; otherwise no default class is designated.
\<close>

definition selectDefaultClass :: "LoadBalancerClass list \<Rightarrow> LoadBalancerClass option" where
  "selectDefaultClass classes =
     (case find (\<lambda>c. LBC_Purpose c = Some DefaultLoadBalancerClass) classes of
        Some c \<Rightarrow> Some c
      | None \<Rightarrow> find (\<lambda>c. LBC_Name c = DefaultLoadBalancerClass) classes)"

text \<open>
  Modelled from the spec: \<open>LoadBalancerClassResolver.Resolve\<close> (section 4.2), absent from the
  sources. The declared classes are returned in declaration order with their fields as
  they are, together with the designated default; an empty list yields one synthesized
  legacy entry built from the top-level floating network ID, with no subnet and no default.
\<close>

definition LoadBalancerClassResolver_Resolve ::
  "LoadBalancerClass list \<Rightarrow> string \<Rightarrow> LoadBalancerClass list \<times> LoadBalancerClass option"
where
  "LoadBalancerClassResolver_Resolve classes topLevelFloatingNetworkID =
     (if classes = []
      then ([\<lparr>LBC_Name = [], LBC_FloatingNetworkID = Some topLevelFloatingNetworkID,
               LBC_FloatingSubnetID = None, LBC_FloatingSubnetName = None,
               LBC_FloatingSubnetTags = None, LBC_SubnetID = None, LBC_Purpose = None\<rparr>],
            None)
      else (classes, selectDefaultClass classes))"

text \<open>
  Modelled from the spec: writing an optional class field into the values (section 4.2,
  "each class's fields are copied through as-is, no field invented"); the helper of the
  values provider is absent from the sources. A field that is nil leaves the values as
  they are.
\<close>

definition setStringValue :: "valuesMap \<Rightarrow> string \<Rightarrow> string option \<Rightarrow> valuesMap" where
  "setStringValue v k s = (case s of None \<Rightarrow> v | Some x \<Rightarrow> v(k \<mapsto> VString x))"

text \<open>
  Modelled from the spec: the top-level floating fields of the config chart values
  (section 4.6 and the expectations of the values-provider tests), absent from the sources.
  \<open>floatingNetworkID\<close> starts as the floating-pool ID of the infrastructure status; when a
  default class was resolved, the fields that class sets are written over the top-level
  ones (its \<open>floatingNetworkID\<close>, its \<open>floatingSubnetID\<close>); a field the class leaves unset
  is not invented.
\<close>

definition topLevelFloatingValues :: "LoadBalancerClass list \<Rightarrow> string \<Rightarrow> valuesMap" where
  "topLevelFloatingValues classes topLevelFloatingNetworkID =
     (let v0 = [''floatingNetworkID'' \<mapsto> VString topLevelFloatingNetworkID]
      in (case snd (LoadBalancerClassResolver_Resolve classes topLevelFloatingNetworkID) of
            None \<Rightarrow> v0
          | Some d \<Rightarrow>
              setStringValue
                (setStringValue v0 ''floatingNetworkID'' (LBC_FloatingNetworkID d))
                ''floatingSubnetID'' (LBC_FloatingSubnetID d)))"

text \<open>
  Modelled from the spec: the auth fields that \<open>CredentialResolver\<close> extracts (sections 2
  and 4.1); the type is absent from the sources.
\<close>

record Credentials =
  DomainName :: string
  TenantName :: string
  Username :: string
  Password :: string
  ApplicationCredentialID :: string
  ApplicationCredentialName :: string
  ApplicationCredentialSecret :: string
  AuthURL :: string
  CACert :: "string option"

datatype credentialError = MissingCredentialError

text \<open>
  Modelled from the spec: reading a key of the opaque secret map (section 4.1 speaks of keys
  that are "non-empty"); absent from the sources. A key that is absent reads as empty.
\<close>

definition secretValue :: "(string \<Rightarrow> string option) \<Rightarrow> string \<Rightarrow> string" where
  "secretValue secretData k = (case secretData k of None \<Rightarrow> [] | Some v \<Rightarrow> v)"

text \<open>
  Modelled from the spec: \<open>CredentialResolver.Resolve\<close> (section 4.1), whose code is not
  among the sources. If the \<open>applicationCredentialID\<close> or \<open>applicationCredentialSecret\<close> key
  is non-empty, username and password resolve to empty strings and the
  application-credential fields are populated; \<open>domainName\<close>, \<open>tenantName\<close> and \<open>authURL\<close>
  pass through verbatim; \<open>caCert\<close> is optional; the resolution fails with
  \<open>MissingCredentialError\<close> only if both auth modes are entirely absent.
\<close>

definition CredentialResolver_Resolve ::
  "(string \<Rightarrow> string option) \<Rightarrow> credentialError + Credentials"
where
  "CredentialResolver_Resolve secretData =
     (let appID = secretValue secretData ''applicationCredentialID'';
          appSecret = secretValue secretData ''applicationCredentialSecret'';
          user = secretValue secretData ''username'';
          pass = secretValue secretData ''password''
      in if appID \<noteq> [] \<or> appSecret \<noteq> []
         then Inr \<lparr>DomainName = secretValue secretData ''domainName'',
                   TenantName = secretValue secretData ''tenantName'',
                   Username = [],
                   Password = [],
                   ApplicationCredentialID = appID,
                   ApplicationCredentialName = secretValue secretData ''applicationCredentialName'',
                   ApplicationCredentialSecret = appSecret,
                   AuthURL = secretValue secretData ''authURL'',
                   CACert = secretData ''caCert''\<rparr>
         else if user = [] \<and> pass = []
         then Inl MissingCredentialError
         else Inr \<lparr>DomainName = secretValue secretData ''domainName'',
                   TenantName = secretValue secretData ''tenantName'',
                   Username = user,
                   Password = pass,
                   ApplicationCredentialID = appID,
                   ApplicationCredentialName = secretValue secretData ''applicationCredentialName'',
                   ApplicationCredentialSecret = appSecret,
                   AuthURL = secretValue secretData ''authURL'',
                   CACert = secretData ''caCert''\<rparr>)"

text \<open>
  Modelled from the spec: the credential keys of the config chart values (sections 4.1 and
  4.6, with the key names the values-provider tests expect), absent from the sources.
\<close>

definition credentialChartValues :: "Credentials \<Rightarrow> valuesMap" where
  "credentialChartValues c =
     [''domainName'' \<mapsto> VString (DomainName c),
      ''tenantName'' \<mapsto> VString (TenantName c),
      ''username'' \<mapsto> VString (Username c),
      ''password'' \<mapsto> VString (Password c),
      ''applicationCredentialID'' \<mapsto> VString (ApplicationCredentialID c),
      ''applicationCredentialName'' \<mapsto> VString (ApplicationCredentialName c),
      ''applicationCredentialSecret'' \<mapsto> VString (ApplicationCredentialSecret c)]"

record AdmissionPlugin =
  AdmissionPlugin_Name :: string
  AdmissionPlugin_Disabled :: "bool option"

text \<open>
  Modelled from the spec: the PSP gate of the shoot chart values (sections 4.6 and 8), whose
  code is not among the sources. \<open>pspDisabled\<close> is true only if the plugin named
  \<open>PodSecurityPolicy\<close> is present in the admission list and explicitly disabled there.
\<close>

definition pspDisabled :: "AdmissionPlugin list \<Rightarrow> bool" where
  "pspDisabled plugins =
     list_ex (\<lambda>p. AdmissionPlugin_Name p = ''PodSecurityPolicy''
                 \<and> AdmissionPlugin_Disabled p = Some True) plugins"

text \<open>
  Modelled from the spec: the \<open>pspDisabled\<close> entry of the shoot chart values (section 4.6),
  absent from the sources.
\<close>

definition pspChartValues :: "AdmissionPlugin list \<Rightarrow> valuesMap" where
  "pspChartValues plugins = [''pspDisabled'' \<mapsto> VBool (pspDisabled plugins)]"

subsection \<open>Sample inputs\<close>

text \<open>
  Simple stand-ins for the helper functions and for the Terraformer, and a few concrete
  configurations, at which the theorems below are instantiated.
\<close>

definition sampleDecode :: "error + CloudProfileConfig \<Rightarrow> error + CloudProfileConfig" where
  "sampleDecode cluster = cluster"

definition sampleFindKeyStoneURL :: "KeyStoneURL list \<Rightarrow> string \<Rightarrow> string \<Rightarrow> error + string" where
  "sampleFindKeyStoneURL urls url region =
     (if url \<noteq> [] then Inr url else Inl (Error ''cannot find keystone URL''))"

definition sampleFindKeyStoneCACert ::
  "KeyStoneURL list \<Rightarrow> string option \<Rightarrow> string \<Rightarrow> string option"
where
  "sampleFindKeyStoneCACert urls ca region = ca"

definition sampleFindFloatingPool ::
  "FloatingPool list \<Rightarrow> string \<Rightarrow> string \<Rightarrow> string option \<Rightarrow> error + FloatingPool"
where
  "sampleFindFloatingPool pools name region domain =
     (case find (\<lambda>p. FloatingPool_Name p = name) pools of
        None \<Rightarrow> Inl (Error ''no floating pool found'')
      | Some p \<Rightarrow> Inr p)"

definition sampleWorkersCIDR :: "InfrastructureConfig \<Rightarrow> string" where
  "sampleWorkersCIDR config = Networks_Workers (Config_Networks config)"

definition sampleQuote :: "string \<Rightarrow> string" where
  "sampleQuote s = CHR 0x22 # s @ [CHR 0x22]"

definition sampleHelper :: "(error + CloudProfileConfig) helper" where
  "sampleHelper =
     \<lparr>CloudProfileConfigFromCluster = sampleDecode,
      FindKeyStoneURL = sampleFindKeyStoneURL,
      FindKeyStoneCACert = sampleFindKeyStoneCACert,
      FindFloatingPool = sampleFindFloatingPool,
      WorkersCIDR = sampleWorkersCIDR,
      strconv_Quote = sampleQuote\<rparr>"

definition samplePool :: FloatingPool where
  "samplePool =
     \<lparr>FloatingPool_Name = ''fip-pool'', FloatingPool_Region = None, FloatingPool_Domain = None,
      DefaultFloatingSubnet = Some ''default-subnet'', NonConstraining = None\<rparr>"

definition sampleProfile :: CloudProfileConfig where
  "sampleProfile =
     \<lparr>Profile_Constraints = \<lparr>FloatingPools = [samplePool]\<rparr>,
      DNSServers = [''8.8.8.8''],
      Profile_KeyStoneURL = ''https://keystone.example'',
      KeyStoneCACert = None,
      KeyStoneForceInsecure = False,
      KeyStoneURLs = [],
      UseSNAT = Some True\<rparr>"

definition profileWithoutKeyStone :: CloudProfileConfig where
  "profileWithoutKeyStone = sampleProfile\<lparr>Profile_KeyStoneURL := []\<rparr>"

definition profileWithoutPools :: CloudProfileConfig where
  "profileWithoutPools = sampleProfile\<lparr>Profile_Constraints := \<lparr>FloatingPools = []\<rparr>\<rparr>"

definition sampleInfra :: Infrastructure where
  "sampleInfra =
     \<lparr>Infra_Namespace = ''shoot--dev--test'', Spec_Region = ''europe'',
      Spec_SSHPublicKey = ''ssh-rsa AAAA''\<rparr>"

definition sampleNetworks :: Networks where
  "sampleNetworks =
     \<lparr>Networks_Router = None, Networks_Worker = [], Networks_Workers = ''10.250.0.0/19'',
      Networks_ID = None, Networks_ShareNetwork = None\<rparr>"

definition sampleConfig :: InfrastructureConfig where
  "sampleConfig =
     \<lparr>FloatingPoolName = ''fip-pool'', FloatingPoolSubnetName = None,
      Config_Networks = sampleNetworks\<rparr>"

definition configExistingRouter :: InfrastructureConfig where
  "configExistingRouter =
     sampleConfig\<lparr>Config_Networks :=
       sampleNetworks\<lparr>Networks_Router := Some \<lparr>Router_ID = ''router-1''\<rparr>\<rparr>\<rparr>"

definition configExistingNetwork :: InfrastructureConfig where
  "configExistingNetwork =
     sampleConfig\<lparr>Config_Networks := sampleNetworks\<lparr>Networks_ID := Some ''net-1''\<rparr>\<rparr>"

definition configShareNetwork :: InfrastructureConfig where
  "configShareNetwork =
     sampleConfig\<lparr>Config_Networks :=
       sampleNetworks\<lparr>Networks_ShareNetwork := Some \<lparr>ShareNetwork_Enabled = True\<rparr>\<rparr>\<rparr>"

definition configExplicitSubnet :: InfrastructureConfig where
  "configExplicitSubnet = sampleConfig\<lparr>FloatingPoolSubnetName := Some ''explicit-subnet''\<rparr>"

text \<open>Outputs of an applied state: without, and with, a share network.\<close>

definition baseOutputs :: outputs where
  "baseOutputs =
     map_of [(''key_name'', ''ssh-key''), (''router_id'', ''r-1''), (''router_ip'', ''10.0.0.1''),
             (''network_id'', ''n-1''), (''network_name'', ''net''), (''subnet_id'', ''s-1''),
             (''floating_network_id'', ''f-1''), (''security_group_id'', ''sg-1''),
             (''security_group_name'', ''sg'')]"


text \<open>
  What \<open>ComputeTerraformerTemplateValues\<close> returns for the sample helper, the sample
  infrastructure and the sample cloud profile, as a function of the configuration.
\<close>

definition sampleValues :: "InfrastructureConfig \<Rightarrow> valuesMap" where
  "sampleValues config =
     [''openstack'' \<mapsto> VMap
        [''maxApiCallRetries'' \<mapsto> VString ''10'',
         ''authURL'' \<mapsto> VString ''https://keystone.example'',
         ''region'' \<mapsto> VString ''europe'',
         ''insecure'' \<mapsto> VBool False,
         ''floatingPoolName'' \<mapsto> VString (FloatingPoolName config),
         ''useCACert'' \<mapsto> VBool False],
      ''create'' \<mapsto> VMap
        [''router'' \<mapsto> VBool (createRouter config),
         ''network'' \<mapsto> VBool (createNetwork config),
         ''shareNetwork'' \<mapsto> VBool (createShareNetwork config)],
      ''dnsServers'' \<mapsto> VStrings [''8.8.8.8''],
      ''sshPublicKey'' \<mapsto> VString ''ssh-rsa AAAA'',
      ''router'' \<mapsto> VMap (routerConfig sampleHelper sampleInfra config sampleProfile),
      ''clusterName'' \<mapsto> VString ''shoot--dev--test'',
      ''networks'' \<mapsto> VMap (networksConfig sampleHelper config),
      ''outputKeys'' \<mapsto> VMap (outputKeysConfig config)]"

definition allOutputs :: outputs where
  "allOutputs =
     map_of [(''key_name'', ''ssh-key''), (''router_id'', ''r-1''), (''router_ip'', ''10.0.0.1''),
             (''network_id'', ''n-1''), (''network_name'', ''net''), (''subnet_id'', ''s-1''),
             (''floating_network_id'', ''f-1''), (''security_group_id'', ''sg-1''),
             (''security_group_name'', ''sg''), (''share_network_id'', ''sn-1''),
             (''share_network_name'', ''share'')]"




text \<open>
  The two load-balancer classes of the values-provider test "load balancer classes with
  purpose": one merely named \<open>default\<close>, one whose purpose is \<open>default\<close>.
\<close>

definition classNamedDefault :: LoadBalancerClass where
  "classNamedDefault =
     \<lparr>LBC_Name = ''default'', LBC_FloatingNetworkID = None,
      LBC_FloatingSubnetID = Some ''fip-subnet-1'', LBC_FloatingSubnetName = None,
      LBC_FloatingSubnetTags = None, LBC_SubnetID = None, LBC_Purpose = None\<rparr>"

definition classRealDefault :: LoadBalancerClass where
  "classRealDefault =
     \<lparr>LBC_Name = ''real-default'', LBC_FloatingNetworkID = None,
      LBC_FloatingSubnetID = Some ''fip-subnet-2'', LBC_FloatingSubnetName = None,
      LBC_FloatingSubnetTags = None, LBC_SubnetID = None, LBC_Purpose = Some ''default''\<rparr>"

text \<open>
  A secret that holds both a username/password pair and an application credential ID, and
  the secret of the values-provider test "with application credentials".
\<close>

definition secretBoth :: "string \<Rightarrow> string option" where
  "secretBoth =
     map_of [(''domainName'', ''domain-name''), (''tenantName'', ''tenant-name''),
             (''username'', ''username''), (''password'', ''password''),
             (''applicationCredentialID'', ''app-id''), (''authURL'', ''someurl'')]"

definition secretApplicationCredentials :: "string \<Rightarrow> string option" where
  "secretApplicationCredentials =
     map_of [(''domainName'', ''domain-name''), (''tenantName'', ''tenant-name''),
             (''applicationCredentialID'', ''app-id''),
             (''applicationCredentialSecret'', ''app-secret''), (''authURL'', ''someurl'')]"

text \<open>The admission plugins of the two PodSecurityPolicy tests of the values provider.\<close>

definition pluginPSP :: AdmissionPlugin where
  "pluginPSP =
     \<lparr>AdmissionPlugin_Name = ''PodSecurityPolicy'', AdmissionPlugin_Disabled = None\<rparr>"

definition pluginPSPDisabled :: AdmissionPlugin where
  "pluginPSPDisabled =
     \<lparr>AdmissionPlugin_Name = ''PodSecurityPolicy'', AdmissionPlugin_Disabled = Some True\<rparr>"

section \<open>Properties of the Terraformer values\<close>

subsection \<open>Shared facts\<close>

lemma ComputeTerraformerTemplateValues_sections:
  assumes "ComputeTerraformerTemplateValues h infra config cluster = Inr v"
  shows "\<exists>cpc url.
    CloudProfileConfigFromCluster h cluster = Inr cpc
    \<and> FindKeyStoneURL h (KeyStoneURLs cpc) (Profile_KeyStoneURL cpc) (Spec_Region infra) = Inr url
    \<and> v ''create'' = Some (VMap [''router'' \<mapsto> VBool (createRouter config),
                       ''network'' \<mapsto> VBool (createNetwork config),
                       ''shareNetwork'' \<mapsto> VBool (createShareNetwork config)])
    \<and> v ''router'' = Some (VMap (routerConfig h infra config cpc))
    \<and> v ''outputKeys'' = Some (VMap (outputKeysConfig config))"
  using assms unfolding ComputeTerraformerTemplateValues_def
  by (auto split: sum.splits)

lemma sample_success:
  "ComputeTerraformerTemplateValues sampleHelper sampleInfra config (Inr sampleProfile) =
     Inr (sampleValues config)"
  by (simp add: ComputeTerraformerTemplateValues_def sampleHelper_def sampleDecode_def
      sampleProfile_def sampleFindKeyStoneURL_def sampleInfra_def sampleFindKeyStoneCACert_def
      useCACert_def sampleValues_def MaxApiCallRetries_def)

lemma sample_decode:
  "CloudProfileConfigFromCluster sampleHelper cluster = cluster"
  by (simp add: sampleHelper_def sampleDecode_def)

lemma createShareNetwork_iff:
  "createShareNetwork config =
     (\<exists>sn. Networks_ShareNetwork (Config_Networks config) = Some sn \<and> ShareNetwork_Enabled sn)"
  by (simp add: createShareNetwork_def split: option.splits)

subsection \<open>Creation flags\<close>

text \<open>
  C2. Whenever \<open>ComputeTerraformerTemplateValues\<close> returns values, the \<open>create\<close> section
  holds \<open>router = false\<close> exactly when the configuration names a router,
  \<open>network = false\<close> exactly when it names a network ID, and \<open>shareNetwork = true\<close> exactly
  when a share network is configured and enabled.
\<close>

theorem create_flags:
  assumes "ComputeTerraformerTemplateValues h infra config cluster = Inr v"
  shows "valueAt v ''create'' ''router'' =
           Some (VBool (Networks_Router (Config_Networks config) = None))
    \<and> valueAt v ''create'' ''network'' =
           Some (VBool (Networks_ID (Config_Networks config) = None))
    \<and> valueAt v ''create'' ''shareNetwork'' =
           Some (VBool (\<exists>sn. Networks_ShareNetwork (Config_Networks config) = Some sn
                             \<and> ShareNetwork_Enabled sn))"
proof -
  from ComputeTerraformerTemplateValues_sections [OF assms]
  have cr: "v ''create'' = Some (VMap [''router'' \<mapsto> VBool (createRouter config),
                       ''network'' \<mapsto> VBool (createNetwork config),
                       ''shareNetwork'' \<mapsto> VBool (createShareNetwork config)])"
    by blast
  show ?thesis
    using cr by (simp add: valueAt_def createRouter_def createNetwork_def createShareNetwork_iff)
qed

theorem create_flags_witness:
  "ComputeTerraformerTemplateValues sampleHelper sampleInfra configExistingRouter (Inr sampleProfile)
     = Inr (sampleValues configExistingRouter)
   \<and> valueAt (sampleValues configExistingRouter) ''create'' ''router'' = Some (VBool False)
   \<and> valueAt (sampleValues configExistingRouter) ''create'' ''network'' = Some (VBool True)
   \<and> valueAt (sampleValues configExistingRouter) ''create'' ''shareNetwork'' = Some (VBool False)"
  using create_flags [OF sample_success, of configExistingRouter]
    sample_success [of configExistingRouter]
  by (simp add: configExistingRouter_def sampleConfig_def sampleNetworks_def)

subsection \<open>Floating subnet\<close>

text \<open>
  C3. \<open>findFloatingSubnet\<close> returns nil when no router is required, whatever the
  configuration and the cloud profile say. When a router is required it returns the
  explicit floating-pool subnet name of the configuration if there is one; otherwise the
  default floating subnet of the pool that \<open>FindFloatingPool\<close> finds for the pool name and
  the region (nil when that pool has none); and nil, not an error, when no pool is found.
\<close>

theorem findFloatingSubnet_precedence:
  "findFloatingSubnet h False config cpc region = None
   \<and> (FloatingPoolSubnetName config = Some s
        \<longrightarrow> findFloatingSubnet h True config cpc region = Some s)
   \<and> (FloatingPoolSubnetName config = None
        \<and> FindFloatingPool h (FloatingPools (Profile_Constraints cpc)) (FloatingPoolName config)
             region None = Inr pool
        \<longrightarrow> findFloatingSubnet h True config cpc region = DefaultFloatingSubnet pool)
   \<and> (FloatingPoolSubnetName config = None
        \<and> FindFloatingPool h (FloatingPools (Profile_Constraints cpc)) (FloatingPoolName config)
             region None = Inl err
        \<longrightarrow> findFloatingSubnet h True config cpc region = None)"
  by (simp add: findFloatingSubnet_def)

theorem findFloatingSubnet_precedence_witness:
  "findFloatingSubnet sampleHelper False configExplicitSubnet sampleProfile ''europe'' = None
   \<and> findFloatingSubnet sampleHelper True configExplicitSubnet sampleProfile ''europe''
       = Some ''explicit-subnet''
   \<and> findFloatingSubnet sampleHelper True sampleConfig sampleProfile ''europe''
       = Some ''default-subnet''
   \<and> findFloatingSubnet sampleHelper True sampleConfig profileWithoutPools ''europe'' = None"
  using
    findFloatingSubnet_precedence [of sampleHelper configExplicitSubnet sampleProfile
      "''europe''" "''explicit-subnet''" samplePool "Error ''no floating pool found''"]
    findFloatingSubnet_precedence [of sampleHelper sampleConfig sampleProfile
      "''europe''" "''explicit-subnet''" samplePool "Error ''no floating pool found''"]
    findFloatingSubnet_precedence [of sampleHelper sampleConfig profileWithoutPools
      "''europe''" "''explicit-subnet''" samplePool "Error ''no floating pool found''"]
  by (simp add: sampleHelper_def configExplicitSubnet_def sampleConfig_def sampleProfile_def
      samplePool_def profileWithoutPools_def sampleFindFloatingPool_def)

subsection \<open>Router variables\<close>

text \<open>
  C4, as the code has it. In the values \<open>ComputeTerraformerTemplateValues\<close> returns, the
  router variables hold a \<open>floatingPoolSubnet\<close> entry exactly when \<open>findFloatingSubnet\<close>
  resolves one, which it does only when the router is created: with an existing router ID
  there is no such entry. The \<open>enableSNAT\<close> entry is present whenever the cloud profile sets
  \<open>UseSNAT\<close>, and carries its value, whether or not the router is created.
\<close>

theorem router_variables:
  assumes "ComputeTerraformerTemplateValues h infra config cluster = Inr v"
    and "CloudProfileConfigFromCluster h cluster = Inr cpc"
  shows "valueAt v ''router'' ''floatingPoolSubnet'' =
           map_option VString
             (findFloatingSubnet h (Networks_Router (Config_Networks config) = None)
                config cpc (Spec_Region infra))
    \<and> (Networks_Router (Config_Networks config) \<noteq> None
         \<longrightarrow> valueAt v ''router'' ''floatingPoolSubnet'' = None)
    \<and> valueAt v ''router'' ''enableSNAT'' = map_option VBool (UseSNAT cpc)"
proof -
  from ComputeTerraformerTemplateValues_sections [OF assms(1)] assms(2)
  have r: "v ''router'' = Some (VMap (routerConfig h infra config cpc))"
    by auto
  have cr: "createRouter config = (Networks_Router (Config_Networks config) = None)"
    by (simp add: createRouter_def)
  have a: "routerConfig h infra config cpc ''floatingPoolSubnet'' =
      map_option VString
        (findFloatingSubnet h (Networks_Router (Config_Networks config) = None)
           config cpc (Spec_Region infra))"
    by (simp add: routerConfig_def cr Let_def split: option.splits)
  have b: "routerConfig h infra config cpc ''enableSNAT'' = map_option VBool (UseSNAT cpc)"
    by (simp add: routerConfig_def Let_def split: option.splits)
  have c: "Networks_Router (Config_Networks config) \<noteq> None \<Longrightarrow>
      findFloatingSubnet h (Networks_Router (Config_Networks config) = None)
        config cpc (Spec_Region infra) = None"
    by (simp add: findFloatingSubnet_def)
  show ?thesis
    using r a b c by (simp add: valueAt_def)
qed

theorem router_variables_witness:
  "ComputeTerraformerTemplateValues sampleHelper sampleInfra sampleConfig (Inr sampleProfile)
     = Inr (sampleValues sampleConfig)
   \<and> CloudProfileConfigFromCluster sampleHelper (Inr sampleProfile) = Inr sampleProfile
   \<and> valueAt (sampleValues sampleConfig) ''router'' ''floatingPoolSubnet''
       = Some (VString ''default-subnet'')
   \<and> valueAt (sampleValues sampleConfig) ''router'' ''enableSNAT'' = Some (VBool True)
   \<and> Networks_Router (Config_Networks configExistingRouter) \<noteq> None
   \<and> valueAt (sampleValues configExistingRouter) ''router'' ''floatingPoolSubnet'' = None"
proof -
  have e: "Networks_Router (Config_Networks configExistingRouter) \<noteq> None"
    by (simp add: configExistingRouter_def)
  have f: "findFloatingSubnet sampleHelper True sampleConfig sampleProfile ''europe''
             = Some ''default-subnet''"
    by (simp add: findFloatingSubnet_def sampleHelper_def sampleFindFloatingPool_def
        sampleConfig_def sampleProfile_def samplePool_def)
  have g: "Networks_Router (Config_Networks sampleConfig) = None"
    "Spec_Region sampleInfra = ''europe''" "UseSNAT sampleProfile = Some True"
    by (simp_all add: sampleConfig_def sampleNetworks_def sampleInfra_def sampleProfile_def)
  show ?thesis
    using router_variables [OF sample_success sample_decode, of sampleConfig]
      router_variables [OF sample_success sample_decode, of configExistingRouter]
      sample_success sample_decode e f g
    by (simp add: findFloatingSubnet_def)
qed

text \<open>
  The claim as the spec words it fails: with an existing router ID (so \<open>create.router\<close> is
  false) and a cloud profile that sets \<open>UseSNAT\<close>, the router variables do hold an
  \<open>enableSNAT\<close> entry.
\<close>

theorem router_variables_snat_counterexample:
  "resultAt (ComputeTerraformerTemplateValues sampleHelper sampleInfra configExistingRouter
       (Inr sampleProfile)) ''create'' ''router'' = Some (VBool False)
   \<and> resultAt (ComputeTerraformerTemplateValues sampleHelper sampleInfra configExistingRouter
       (Inr sampleProfile)) ''router'' ''enableSNAT'' = Some (VBool True)"
  unfolding sample_success resultAt_def
  by (simp add: valueAt_def sampleValues_def routerConfig_def
      createRouter_def configExistingRouter_def sampleConfig_def sampleNetworks_def
      sampleProfile_def findFloatingSubnet_def)

subsection \<open>Output keys\<close>

lemma outputKeys_list:
  "outputKeys config =
     [''key_name'', ''router_id'', ''router_ip'', ''network_id'', ''network_name'',
      ''subnet_id'', ''floating_network_id'', ''security_group_id'', ''security_group_name'']
     @ (if createShareNetwork config then [''share_network_id'', ''share_network_name''] else [])"
  by (simp add: outputKeys_def createShareNetwork_def output_key_defs)

lemma outputKeysConfig_map_of:
  "outputKeysConfig config =
     map_of ([(''keyName'', VString ''key_name''),
              (''routerID'', VString ''router_id''),
              (''routerIP'', VString ''router_ip''),
              (''networkID'', VString ''network_id''),
              (''networkName'', VString ''network_name''),
              (''subnetID'', VString ''subnet_id''),
              (''floatingNetworkID'', VString ''floating_network_id''),
              (''securityGroupID'', VString ''security_group_id''),
              (''securityGroupName'', VString ''security_group_name'')]
             @ (if createShareNetwork config
                then [(''shareNetworkID'', VString ''share_network_id''),
                      (''shareNetworkName'', VString ''share_network_name'')]
                else []))"
  by (rule ext) (simp add: outputKeysConfig_def output_key_defs Let_def)

lemma outputKeysConfig_ran:
  "ran (outputKeysConfig config) = VString ` set (outputKeys config)"
proof (cases "createShareNetwork config")
  case True
  have "ran (outputKeysConfig config) =
     snd ` set [(''keyName'', VString ''key_name''),
              (''routerID'', VString ''router_id''),
              (''routerIP'', VString ''router_ip''),
              (''networkID'', VString ''network_id''),
              (''networkName'', VString ''network_name''),
              (''subnetID'', VString ''subnet_id''),
              (''floatingNetworkID'', VString ''floating_network_id''),
              (''securityGroupID'', VString ''security_group_id''),
              (''securityGroupName'', VString ''security_group_name''),
              (''shareNetworkID'', VString ''share_network_id''),
              (''shareNetworkName'', VString ''share_network_name'')]"
    unfolding outputKeysConfig_map_of using True
    by (simp only: if_True append.simps) (rule ran_distinct, simp)
  then show ?thesis
    unfolding outputKeys_list using True by simp
next
  case False
  have "ran (outputKeysConfig config) =
     snd ` set [(''keyName'', VString ''key_name''),
              (''routerID'', VString ''router_id''),
              (''routerIP'', VString ''router_ip''),
              (''networkID'', VString ''network_id''),
              (''networkName'', VString ''network_name''),
              (''subnetID'', VString ''subnet_id''),
              (''floatingNetworkID'', VString ''floating_network_id''),
              (''securityGroupID'', VString ''security_group_id''),
              (''securityGroupName'', VString ''security_group_name'')]"
    unfolding outputKeysConfig_map_of using False
    by (simp only: if_False append.simps) (rule ran_distinct, simp)
  then show ?thesis
    unfolding outputKeys_list using False by simp
qed



lemma outputKeys_sampleConfig:
  "outputKeys sampleConfig =
     [''key_name'', ''router_id'', ''router_ip'', ''network_id'', ''network_name'',
      ''subnet_id'', ''floating_network_id'', ''security_group_id'', ''security_group_name'']"
  by (simp add: outputKeys_list createShareNetwork_def sampleConfig_def sampleNetworks_def)





text \<open>
  C5. The key list that \<open>ExtractTerraformState\<close> requests consists of the nine base keys
  and, exactly when the share network is configured and enabled, of the two share-network
  keys; it has no duplicates. The \<open>outputKeys\<close> section of the values of
  \<open>ComputeTerraformerTemplateValues\<close> names exactly the same keys. \<open>ExtractTerraformState\<close>
  asks the Terraformer for this list and for nothing else: two Terraformers that answer
  alike on it give the same state, and a Terraformer that fails with an error computed
  from the keys it is asked for makes \<open>ExtractTerraformState\<close> fail with the error computed
  from exactly this list.
\<close>

theorem output_key_table:
  "set (outputKeys config) =
     {''router_id'', ''router_ip'', ''network_id'', ''network_name'', ''subnet_id'',
      ''floating_network_id'', ''security_group_id'', ''security_group_name'', ''key_name''}
     \<union> (if (\<exists>sn. Networks_ShareNetwork (Config_Networks config) = Some sn \<and> ShareNetwork_Enabled sn)
        then {''share_network_id'', ''share_network_name''} else {})
   \<and> distinct (outputKeys config)
   \<and> ran (outputKeysConfig config) = VString ` set (outputKeys config)
   \<and> (ComputeTerraformerTemplateValues h infra config cluster = Inr v
        \<longrightarrow> v ''outputKeys'' = Some (VMap (outputKeysConfig config)))
   \<and> (tf (outputKeys config) = tf' (outputKeys config)
        \<longrightarrow> ExtractTerraformState tf config = ExtractTerraformState tf' config)
   \<and> ExtractTerraformState (Inl \<circ> f) config = Inl (f (outputKeys config))"
proof -
  have a: "set (outputKeys config) =
     {''router_id'', ''router_ip'', ''network_id'', ''network_name'', ''subnet_id'',
      ''floating_network_id'', ''security_group_id'', ''security_group_name'', ''key_name''}
     \<union> (if (\<exists>sn. Networks_ShareNetwork (Config_Networks config) = Some sn \<and> ShareNetwork_Enabled sn)
        then {''share_network_id'', ''share_network_name''} else {})"
    unfolding outputKeys_list createShareNetwork_iff [symmetric]
    by (cases "createShareNetwork config") (simp_all add: insert_commute)
  have b: "distinct (outputKeys config)"
    unfolding outputKeys_list by simp
  have c: "ComputeTerraformerTemplateValues h infra config cluster = Inr v
        \<longrightarrow> v ''outputKeys'' = Some (VMap (outputKeysConfig config))"
    using ComputeTerraformerTemplateValues_sections [of h infra config cluster v] by blast
  have d: "tf (outputKeys config) = tf' (outputKeys config)
        \<longrightarrow> ExtractTerraformState tf config = ExtractTerraformState tf' config"
    by (simp add: ExtractTerraformState_def)
  have e: "ExtractTerraformState (Inl \<circ> f) config = Inl (f (outputKeys config))"
    by (simp add: ExtractTerraformState_def)
  from a b c d e outputKeysConfig_ran [of config] show ?thesis by (intro conjI)
qed

theorem output_key_table_witness:
  "set (outputKeys configShareNetwork) =
     {''router_id'', ''router_ip'', ''network_id'', ''network_name'', ''subnet_id'',
      ''floating_network_id'', ''security_group_id'', ''security_group_name'', ''key_name'',
      ''share_network_id'', ''share_network_name''}
   \<and> set (outputKeys sampleConfig) =
     {''router_id'', ''router_ip'', ''network_id'', ''network_name'', ''subnet_id'',
      ''floating_network_id'', ''security_group_id'', ''security_group_name'', ''key_name''}
   \<and> ComputeTerraformerTemplateValues sampleHelper sampleInfra configShareNetwork
        (Inr sampleProfile) = Inr (sampleValues configShareNetwork)
   \<and> sampleValues configShareNetwork ''outputKeys''
        = Some (VMap (outputKeysConfig configShareNetwork))
   \<and> GetStateOutputVariables allOutputs (outputKeys sampleConfig)
        = GetStateOutputVariables baseOutputs (outputKeys sampleConfig)
   \<and> ExtractTerraformState (GetStateOutputVariables allOutputs) sampleConfig
        = ExtractTerraformState (GetStateOutputVariables baseOutputs) sampleConfig
   \<and> ExtractTerraformState (Inl \<circ> variablesNotFoundError) sampleConfig
        = Inl (variablesNotFoundError
            [''key_name'', ''router_id'', ''router_ip'', ''network_id'', ''network_name'',
             ''subnet_id'', ''floating_network_id'', ''security_group_id'',
             ''security_group_name''])"
proof -
  have sn: "\<exists>sn. Networks_ShareNetwork (Config_Networks configShareNetwork) = Some sn
              \<and> ShareNetwork_Enabled sn"
    by (simp add: configShareNetwork_def)
  have nsn: "\<not> (\<exists>sn. Networks_ShareNetwork (Config_Networks sampleConfig) = Some sn
              \<and> ShareNetwork_Enabled sn)"
    by (simp add: sampleConfig_def sampleNetworks_def)
  have r: "GetStateOutputVariables allOutputs (outputKeys sampleConfig)
        = GetStateOutputVariables baseOutputs (outputKeys sampleConfig)"
    unfolding outputKeys_sampleConfig
    by (simp add: GetStateOutputVariables_def allOutputs_def baseOutputs_def restrict_map_def
        fun_eq_iff)
  show ?thesis
    using output_key_table [of configShareNetwork sampleHelper sampleInfra "Inr sampleProfile"
              "sampleValues configShareNetwork" "GetStateOutputVariables allOutputs"
              "GetStateOutputVariables allOutputs" variablesNotFoundError]
      output_key_table [of sampleConfig sampleHelper sampleInfra "Inr sampleProfile"
              "sampleValues sampleConfig" "GetStateOutputVariables allOutputs"
              "GetStateOutputVariables baseOutputs" variablesNotFoundError]
      sn nsn r sample_success [of configShareNetwork] outputKeys_sampleConfig
    by (simp add: insert_commute)
qed

subsection \<open>Error paths\<close>

text \<open>
  C6. \<open>ComputeTerraformerTemplateValues\<close> returns the error of
  \<open>CloudProfileConfigFromCluster\<close> when the cloud profile cannot be decoded, and the error
  of \<open>FindKeyStoneURL\<close> when the keystone URL cannot be resolved; in both cases the result
  is the error alone (Go's \<open>nil, err\<close>), with no values. It fails in no other case.
\<close>

theorem error_paths_return_no_values:
  "(CloudProfileConfigFromCluster h cluster = Inl err
      \<longrightarrow> ComputeTerraformerTemplateValues h infra config cluster = Inl err)
   \<and> (CloudProfileConfigFromCluster h cluster = Inr cpc
       \<and> FindKeyStoneURL h (KeyStoneURLs cpc) (Profile_KeyStoneURL cpc) (Spec_Region infra) = Inl err
      \<longrightarrow> ComputeTerraformerTemplateValues h infra config cluster = Inl err)
   \<and> (ComputeTerraformerTemplateValues h infra config cluster = Inl err
      \<longrightarrow> CloudProfileConfigFromCluster h cluster = Inl err
          \<or> (\<exists>p. CloudProfileConfigFromCluster h cluster = Inr p
                 \<and> FindKeyStoneURL h (KeyStoneURLs p) (Profile_KeyStoneURL p) (Spec_Region infra) = Inl err))"
  by (auto simp: ComputeTerraformerTemplateValues_def split: sum.splits)

theorem error_paths_return_no_values_witness:
  "CloudProfileConfigFromCluster sampleHelper (Inl (Error ''cannot decode''))
     = Inl (Error ''cannot decode'')
   \<and> ComputeTerraformerTemplateValues sampleHelper sampleInfra sampleConfig
       (Inl (Error ''cannot decode'')) = Inl (Error ''cannot decode'')
   \<and> CloudProfileConfigFromCluster sampleHelper (Inr profileWithoutKeyStone)
       = Inr profileWithoutKeyStone
   \<and> FindKeyStoneURL sampleHelper (KeyStoneURLs profileWithoutKeyStone)
       (Profile_KeyStoneURL profileWithoutKeyStone) (Spec_Region sampleInfra)
       = Inl (Error ''cannot find keystone URL'')
   \<and> ComputeTerraformerTemplateValues sampleHelper sampleInfra sampleConfig
       (Inr profileWithoutKeyStone) = Inl (Error ''cannot find keystone URL'')"
proof -
  have k: "FindKeyStoneURL sampleHelper (KeyStoneURLs profileWithoutKeyStone)
       (Profile_KeyStoneURL profileWithoutKeyStone) (Spec_Region sampleInfra)
       = Inl (Error ''cannot find keystone URL'')"
    by (simp add: sampleHelper_def sampleFindKeyStoneURL_def profileWithoutKeyStone_def)
  show ?thesis
    using error_paths_return_no_values [of sampleHelper "Inl (Error ''cannot decode'')" "Error ''cannot decode''"
              sampleInfra sampleConfig profileWithoutKeyStone]
      error_paths_return_no_values [of sampleHelper "Inr profileWithoutKeyStone" "Error ''cannot find keystone URL''"
              sampleInfra sampleConfig profileWithoutKeyStone]
      k sample_decode
    by simp
qed

section \<open>Properties of the status reconstruction\<close>

subsection \<open>Floating pool name\<close>



subsection \<open>Share network round trip\<close>



section \<open>Properties of the control-plane values\<close>

subsection \<open>Default load-balancer class\<close>

lemma find_Some_if_member:
  assumes "c \<in> set classes" "P c"
  shows "\<exists>d. find P classes = Some d \<and> P d"
  using assms by (induction classes) auto

text \<open>
  C7. When some declared class has purpose \<open>default\<close>, the resolver designates the first
  such class as the default, whether or not another class is literally named \<open>default\<close>:
  purpose beats the literal name. The top-level \<open>floatingSubnetID\<close> chart value is the
  \<open>floatingSubnetID\<close> of that class, and the top-level \<open>floatingNetworkID\<close> is that class's
  \<open>floatingNetworkID\<close> when it sets one, the floating-pool ID of the infrastructure status
  otherwise.
\<close>

theorem default_class_purpose_beats_name:
  assumes "c \<in> set classes" and "LBC_Purpose c = Some ''default''"
  shows "\<exists>d. snd (LoadBalancerClassResolver_Resolve classes fnid) = Some d
     \<and> find (\<lambda>x. LBC_Purpose x = Some ''default'') classes = Some d
     \<and> LBC_Purpose d = Some ''default''
     \<and> topLevelFloatingValues classes fnid ''floatingSubnetID''
          = map_option VString (LBC_FloatingSubnetID d)
     \<and> topLevelFloatingValues classes fnid ''floatingNetworkID''
          = Some (VString (case LBC_FloatingNetworkID d of None \<Rightarrow> fnid | Some n \<Rightarrow> n))"
proof -
  from find_Some_if_member [of c classes "\<lambda>x. LBC_Purpose x = Some ''default''"] assms
  obtain d where d: "find (\<lambda>x. LBC_Purpose x = Some ''default'') classes = Some d"
      "LBC_Purpose d = Some ''default''"
    by blast
  from assms(1) have ne: "classes \<noteq> []" by auto
  have r: "snd (LoadBalancerClassResolver_Resolve classes fnid) = Some d"
    using d ne
    by (simp add: LoadBalancerClassResolver_Resolve_def selectDefaultClass_def
        DefaultLoadBalancerClass_def)
  have s: "topLevelFloatingValues classes fnid ''floatingSubnetID''
          = map_option VString (LBC_FloatingSubnetID d)"
    by (simp add: topLevelFloatingValues_def r setStringValue_def Let_def split: option.splits)
  have n: "topLevelFloatingValues classes fnid ''floatingNetworkID''
          = Some (VString (case LBC_FloatingNetworkID d of None \<Rightarrow> fnid | Some n \<Rightarrow> n))"
    by (simp add: topLevelFloatingValues_def r setStringValue_def Let_def split: option.splits)
  show ?thesis using d r s n by blast
qed

theorem default_class_purpose_beats_name_witness:
  "classRealDefault \<in> set [classNamedDefault, classRealDefault]
   \<and> LBC_Purpose classRealDefault = Some ''default''
   \<and> snd (LoadBalancerClassResolver_Resolve [classNamedDefault, classRealDefault] ''fip1'')
       = Some classRealDefault
   \<and> topLevelFloatingValues [classNamedDefault, classRealDefault] ''fip1'' ''floatingSubnetID''
       = Some (VString ''fip-subnet-2'')
   \<and> topLevelFloatingValues [classNamedDefault, classRealDefault] ''fip1'' ''floatingNetworkID''
       = Some (VString ''fip1'')"
proof -
  have m: "classRealDefault \<in> set [classNamedDefault, classRealDefault]" by simp
  have p: "LBC_Purpose classRealDefault = Some ''default''"
    by (simp add: classRealDefault_def)
  have q: "LBC_Purpose classNamedDefault = None"
    "LBC_FloatingSubnetID classRealDefault = Some ''fip-subnet-2''"
    "LBC_FloatingNetworkID classRealDefault = None"
    by (simp_all add: classNamedDefault_def classRealDefault_def)
  show ?thesis
    using default_class_purpose_beats_name [OF m p, of "''fip1''"] m p q by auto
qed

subsection \<open>Credentials\<close>

text \<open>
  C8. For every secret whose \<open>applicationCredentialID\<close> or \<open>applicationCredentialSecret\<close>
  is non-empty, the credentials resolve, the application-credential fields of the chart
  values are those of the secret, and the \<open>username\<close> and \<open>password\<close> chart values are
  empty strings: the two auth modes are never both populated.
\<close>

theorem application_credentials_exclusive:
  assumes "secretValue secretData ''applicationCredentialID'' \<noteq> []
           \<or> secretValue secretData ''applicationCredentialSecret'' \<noteq> []"
  shows "\<exists>c. CredentialResolver_Resolve secretData = Inr c
     \<and> Username c = [] \<and> Password c = []
     \<and> ApplicationCredentialID c = secretValue secretData ''applicationCredentialID''
     \<and> ApplicationCredentialSecret c = secretValue secretData ''applicationCredentialSecret''
     \<and> credentialChartValues c ''username'' = Some (VString [])
     \<and> credentialChartValues c ''password'' = Some (VString [])
     \<and> credentialChartValues c ''applicationCredentialID''
          = Some (VString (secretValue secretData ''applicationCredentialID''))
     \<and> credentialChartValues c ''applicationCredentialSecret''
          = Some (VString (secretValue secretData ''applicationCredentialSecret''))"
  using assms
  by (auto simp: CredentialResolver_Resolve_def credentialChartValues_def Let_def)

theorem application_credentials_exclusive_witness:
  "secretValue secretBoth ''applicationCredentialID'' \<noteq> []
   \<and> Username (projr (CredentialResolver_Resolve secretBoth)) = []
   \<and> Password (projr (CredentialResolver_Resolve secretBoth)) = []
   \<and> ApplicationCredentialID (projr (CredentialResolver_Resolve secretBoth)) = ''app-id''
   \<and> credentialChartValues (projr (CredentialResolver_Resolve secretBoth)) ''username''
       = Some (VString [])
   \<and> credentialChartValues (projr (CredentialResolver_Resolve secretBoth)) ''password''
       = Some (VString [])
   \<and> credentialChartValues (projr (CredentialResolver_Resolve secretBoth))
       ''applicationCredentialID'' = Some (VString ''app-id'')
   \<and> secretValue secretApplicationCredentials ''applicationCredentialSecret'' \<noteq> []
   \<and> credentialChartValues (projr (CredentialResolver_Resolve secretApplicationCredentials))
       ''username'' = Some (VString [])
   \<and> credentialChartValues (projr (CredentialResolver_Resolve secretApplicationCredentials))
       ''password'' = Some (VString [])
   \<and> credentialChartValues (projr (CredentialResolver_Resolve secretApplicationCredentials))
       ''applicationCredentialID'' = Some (VString ''app-id'')
   \<and> credentialChartValues (projr (CredentialResolver_Resolve secretApplicationCredentials))
       ''applicationCredentialSecret'' = Some (VString ''app-secret'')"
proof -
  have a: "secretValue secretBoth ''applicationCredentialID'' = ''app-id''"
    by (simp add: secretValue_def secretBoth_def)
  then have b: "secretValue secretBoth ''applicationCredentialID'' \<noteq> []
           \<or> secretValue secretBoth ''applicationCredentialSecret'' \<noteq> []"
    by simp
  have a': "secretValue secretApplicationCredentials ''applicationCredentialID'' = ''app-id''"
    "secretValue secretApplicationCredentials ''applicationCredentialSecret'' = ''app-secret''"
    by (simp_all add: secretValue_def secretApplicationCredentials_def)
  then have b': "secretValue secretApplicationCredentials ''applicationCredentialID'' \<noteq> []
           \<or> secretValue secretApplicationCredentials ''applicationCredentialSecret'' \<noteq> []"
    by simp
  show ?thesis
    using application_credentials_exclusive [OF b] application_credentials_exclusive [OF b'] a a' by auto
qed

subsection \<open>PSP gate\<close>

text \<open>
  C9. The shoot chart values carry \<open>pspDisabled = true\<close> exactly when the admission-plugin
  list has an entry named \<open>PodSecurityPolicy\<close> whose \<open>Disabled\<close> field is explicitly true;
  an empty list, or a list in which no such plugin is disabled, gives
  \<open>pspDisabled = false\<close>.
\<close>

theorem psp_gate:
  "pspChartValues plugins ''pspDisabled'' =
     Some (VBool (\<exists>p \<in> set plugins. AdmissionPlugin_Name p = ''PodSecurityPolicy''
                                   \<and> AdmissionPlugin_Disabled p = Some True))
   \<and> pspChartValues [] ''pspDisabled'' = Some (VBool False)
   \<and> ((\<forall>p \<in> set plugins. AdmissionPlugin_Name p = ''PodSecurityPolicy''
                           \<longrightarrow> AdmissionPlugin_Disabled p \<noteq> Some True)
        \<longrightarrow> pspChartValues plugins ''pspDisabled'' = Some (VBool False))"
  by (auto simp: pspChartValues_def pspDisabled_def list_ex_iff)

theorem psp_gate_witness:
  "pspChartValues [pluginPSPDisabled] ''pspDisabled'' = Some (VBool True)
   \<and> pspChartValues [pluginPSP] ''pspDisabled'' = Some (VBool False)
   \<and> pspChartValues [] ''pspDisabled'' = Some (VBool False)"
  using psp_gate [of "[pluginPSPDisabled]"] psp_gate [of "[pluginPSP]"]
  by (simp add: pluginPSP_def pluginPSPDisabled_def)

end
